theory Spec2Isabelle
  imports Complex_Main "HOL-Library.Multiset"
begin

section \<open>Contact scoring: the data\<close>

text \<open>
  The program reads a table of contacts with pandas, fills the missing cells of three
  columns, scores every row, sorts the rows by the score and writes them back without
  the score columns. A cell of an object column is either a Python string or the float
  NaN that pandas puts where the file has no value.

  A Python string is a sequence of code points; the model covers the code points below
  256, one \<^typ>\<open>char\<close> each.
\<close>

datatype cell = NaN | Str string

text \<open>The exceptions the scoring functions can raise.\<close>

datatype error = AttributeError | KeyError

text \<open>
  A row of the frame: the three columns the program reads by name, and the remaining
  columns of the row in the order of the header, each with its name. The program never
  reads the cells of these columns, so their type is left open; it does assign to four
  column names of its own, which may be among them.
\<close>

record 'a contact =
  Role :: cell
  Company_Size :: cell
  Country :: cell
  Other :: "(string \<times> 'a) list"

text \<open>A row of the frame once the four score columns have been added.\<close>

record 'a scored = "'a contact" +
  role_score :: int
  company_size_score :: int
  country_score :: int
  final_score :: rat

section \<open>The score tables\<close>

definition ROLE_SCORES :: "(string \<times> int) list" where
  "ROLE_SCORES =
    [(''ceo'', 100),
     (''cfo'', 90),
     (''cto'', 90),
     (''manager'', 80),
     (''consultant'', 70),
     (''engineer'', 60),
     (''developer'', 50),
     (''analyst'', 40),
     (''designer'', 30),
     (''intern'', 10)]"

definition COMPANY_SIZE_SCORES :: "(string \<times> int) list" where
  "COMPANY_SIZE_SCORES =
    [(''10000+'', 100),
     (''5001-10000'', 90),
     (''1001-5000'', 80),
     (''501-1000'', 70),
     (''201-500'', 60),
     (''51-200'', 50),
     (''11-50'', 30),
     (''1-10'', 20)]"

definition COUNTRY_TIERS :: "(string \<times> string set) list" where
  "COUNTRY_TIERS =
    [(''tier_1'', {''usa'', ''uk'', ''germany'', ''france'', ''canada'', ''australia''}),
     (''tier_2'', {''spain'', ''italy'', ''brazil'', ''india''})]"

definition COUNTRY_SCORES :: "(string \<times> int) list" where
  "COUNTRY_SCORES =
    [(''tier_1'', 100),
     (''tier_2'', 80),
     (''other'', 60)]"

section \<open>Python's dictionary and string operations\<close>

text \<open>\<open>d.get(k, default)\<close>: the value stored under \<open>k\<close>, the default when there is none.\<close>

definition dict_get :: "('k \<times> 'v) list \<Rightarrow> 'k \<Rightarrow> 'v \<Rightarrow> 'v" where
  "dict_get d k dflt = (case map_of d k of None \<Rightarrow> dflt | Some v \<Rightarrow> v)"

text \<open>\<open>d[k]\<close>: the value stored under \<open>k\<close>; a missing key raises.\<close>

definition dict_item :: "('k \<times> 'v) list \<Rightarrow> 'k \<Rightarrow> error + 'v" where
  "dict_item d k = (case map_of d k of None \<Rightarrow> Inl KeyError | Some v \<Rightarrow> Inr v)"

text \<open>
  \<open>str.lower\<close> on the code points below 256: the letters A to Z and the letters from
  U+00C0 to U+00DE other than the multiplication sign U+00D7 move up by 32, every other
  code point stays.
\<close>

definition lower_char :: "char \<Rightarrow> char" where
  "lower_char c =
    (let n = (of_char c :: nat)
     in if (65 \<le> n \<and> n \<le> 90) \<or> (192 \<le> n \<and> n \<le> 222 \<and> n \<noteq> 215)
        then char_of (n + 32) else c)"

definition lower :: "string \<Rightarrow> string" where
  "lower s = map lower_char s"

section \<open>The scoring functions\<close>

text \<open>
  \<open>assign_role_score\<close> calls \<open>role.lower()\<close> first, which a float does not have: on
  NaN it raises AttributeError.
\<close>

fun assign_role_score :: "cell \<Rightarrow> error + int" where
  "assign_role_score NaN = Inl AttributeError"
| "assign_role_score (Str role) = Inr (dict_get ROLE_SCORES (lower role) 20)"

text \<open>
  \<open>assign_company_size_score\<close> looks its argument up as it is. NaN is hashable and is no
  key of the table, so it gets the default.
\<close>

fun assign_company_size_score :: "cell \<Rightarrow> int" where
  "assign_company_size_score NaN = 20"
| "assign_company_size_score (Str size') = dict_get COMPANY_SIZE_SCORES size' 20"

fun assign_country_score :: "cell \<Rightarrow> error + int" where
  "assign_country_score NaN = Inl AttributeError"
| "assign_country_score (Str country) =
    (let country = lower country in
     case dict_item COUNTRY_TIERS ''tier_1'' of
       Inl e \<Rightarrow> Inl e
     | Inr tier_1 \<Rightarrow>
         if country \<in> tier_1 then dict_item COUNTRY_SCORES ''tier_1''
         else
           (case dict_item COUNTRY_TIERS ''tier_2'' of
              Inl e \<Rightarrow> Inl e
            | Inr tier_2 \<Rightarrow>
                if country \<in> tier_2 then dict_item COUNTRY_SCORES ''tier_2''
                else dict_item COUNTRY_SCORES ''other''))"

section \<open>The pandas operations\<close>

text \<open>
  \<open>Series.fillna(value)\<close> on one cell: NaN becomes the value, a string stays.
\<close>

fun fillna :: "cell \<Rightarrow> string \<Rightarrow> cell" where
  "fillna NaN v = Str v"
| "fillna (Str s) v = Str s"

text \<open>
  \<open>Series.apply(f)\<close> calls \<open>f\<close> on the cells from the first row to the last; the first
  exception ends the run.
\<close>

fun series_apply :: "('a \<Rightarrow> error + 'b) \<Rightarrow> 'a list \<Rightarrow> error + 'b list" where
  "series_apply f [] = Inr []"
| "series_apply f (x # xs) =
    (case f x of
       Inl e \<Rightarrow> Inl e
     | Inr y \<Rightarrow> (case series_apply f xs of Inl e \<Rightarrow> Inl e | Inr ys \<Rightarrow> Inr (y # ys)))"

text \<open>Running one step after another: an exception of the first step skips the rest.\<close>

definition bind_err :: "error + 'a \<Rightarrow> ('a \<Rightarrow> error + 'b) \<Rightarrow> error + 'b" where
  "bind_err m f = (case m of Inl e \<Rightarrow> Inl e | Inr x \<Rightarrow> f x)"

text \<open>The names of the four columns that the program assigns and later drops.\<close>

definition score_columns :: "string list" where
  "score_columns = [''role_score'', ''company_size_score'', ''country_score'', ''final_score'']"

text \<open>A row's other columns without those of the given names.\<close>

definition without_columns :: "string list \<Rightarrow> (string \<times> 'a) list \<Rightarrow> (string \<times> 'a) list" where
  "without_columns names cols = filter (\<lambda>(n, v). n \<notin> set names) cols"

text \<open>
  Assigning the four score columns to the frame, row by row. \<open>df[name] = values\<close> adds
  the column when the frame has none of that name and replaces its cells when it has
  one: a column of the input that bears one of the four names loses its cells to the
  scores, and goes with them when the score columns are dropped.
\<close>

definition add_score_columns ::
  "'a contact list \<Rightarrow> int list \<Rightarrow> int list \<Rightarrow> int list \<Rightarrow> rat list \<Rightarrow> 'a scored list" where
  "add_score_columns df role_scores company_size_scores country_scores final_scores =
    map (\<lambda>(r, a, b, c, d).
          contact.extend (r\<lparr>Other := without_columns score_columns (Other r)\<rparr>)
            (scored.fields a b c d))
      (zip df (zip role_scores (zip company_size_scores (zip country_scores final_scores))))"

text \<open>
  \<open>DataFrame.sort_values(column, ascending=...)\<close> is library code. The program calls it
  with the default \<open>kind='quicksort'\<close>, for which pandas promises the order of the keys
  and nothing about rows with equal keys. It is a parameter of the model, and
  \<open>sort_values_spec\<close> is what the library promises of it: the rows come back, each as
  often as it went in, with the keys ascending or descending as asked.
\<close>

type_synonym 'r sort_values = "('r \<Rightarrow> rat) \<Rightarrow> bool \<Rightarrow> 'r list \<Rightarrow> 'r list"

definition sort_values_spec :: "'r sort_values \<Rightarrow> bool" where
  "sort_values_spec sv \<longleftrightarrow>
    (\<forall>key df.
       mset (sv key True df) = mset df \<and> sorted (map key (sv key True df)) \<and>
       mset (sv key False df) = mset df \<and> sorted (rev (map key (sv key False df))))"

text \<open>
  One sorter that keeps the promise, to run the program on concrete frames: the one
  pandas uses under \<open>kind='stable'\<close>, which for a descending sort reverses the frame,
  sorts it ascending with a stable sort and reverses the result.
\<close>

definition sort_values_stable :: "'r sort_values" where
  "sort_values_stable key ascending df =
    (if ascending then sort_key key df else rev (sort_key key (rev df)))"

section \<open>The program\<close>

text \<open>
  The three \<open>fillna\<close> calls of \<open>process_contacts\<close>, on one row. They are made with
  \<open>inplace=True\<close> on the columns of the frame, to give the frame the defaults, as the
  comment above them says.
\<close>

definition fillna_defaults :: "'a contact \<Rightarrow> 'a contact" where
  "fillna_defaults r =
    r\<lparr>Role := fillna (Role r) ''unknown'',
      Company_Size := fillna (Company_Size r) ''1-10'',
      Country := fillna (Country r) ''unknown''\<rparr>"

definition WEIGHTS :: "(string \<times> rat) list" where
  "WEIGHTS =
    [(''role'', 0.5),
     (''company_size'', 0.3),
     (''country'', 0.2)]"

text \<open>
  The frame of \<open>process_contacts\<close> after the score columns have been added: the filled
  frame with \<open>role_score\<close>, \<open>company_size_score\<close>, \<open>country_score\<close> and \<open>final_score\<close>.

  The final score is a float in the program and a rational here. Every entry of the
  score tables is a multiple of ten, so every exact final score is a whole number, and
  for each of the 240 combinations of scores the program's float arithmetic gives that
  whole number too.
\<close>

definition scored_frame :: "'a contact list \<Rightarrow> error + 'a scored list" where
  "scored_frame df0 =
    (let df = map fillna_defaults df0 in
     bind_err (series_apply assign_role_score (map Role df)) (\<lambda>role_scores.
     let company_size_scores = map assign_company_size_score (map Company_Size df) in
     bind_err (series_apply assign_country_score (map Country df)) (\<lambda>country_scores.
     bind_err (dict_item WEIGHTS ''role'') (\<lambda>w_role.
     bind_err (dict_item WEIGHTS ''company_size'') (\<lambda>w_company_size.
     bind_err (dict_item WEIGHTS ''country'') (\<lambda>w_country.
     let final_scores =
           map (\<lambda>(a, b, c). of_int a * w_role + of_int b * w_company_size + of_int c * w_country)
             (zip role_scores (zip company_size_scores country_scores))
     in Inr (add_score_columns df role_scores company_size_scores country_scores
               final_scores)))))))"

text \<open>
  \<open>process_contacts\<close> from the frame that \<open>read_csv\<close> returns to the frame that \<open>to_csv\<close>
  writes: the scored frame is sorted by \<open>final_score\<close> with \<open>ascending=False\<close>, and
  the four score columns are dropped.
\<close>

definition process_contacts :: "'a scored sort_values \<Rightarrow> 'a contact list \<Rightarrow> error + 'a contact list" where
  "process_contacts sort_values df =
    bind_err (scored_frame df) (\<lambda>df.
      let df_sorted = sort_values final_score False df
      in Inr (map contact.truncate df_sorted))"

section \<open>The lookups in the words of the specification\<close>

text \<open>
  The specification describes three lookups on strings. They are written down here as it
  words them, over the tables of the program, to be compared with the program's
  functions.
\<close>

definition roleScore :: "string \<Rightarrow> int" where
  "roleScore role =
    (case map_of ROLE_SCORES (lower role) of None \<Rightarrow> 20 | Some score \<Rightarrow> score)"

definition companySizeScore :: "string \<Rightarrow> int" where
  "companySizeScore size' =
    (case map_of COMPANY_SIZE_SCORES size' of None \<Rightarrow> 20 | Some score \<Rightarrow> score)"

definition countryScore :: "string \<Rightarrow> int" where
  "countryScore country =
    (if lower country \<in> {''usa'', ''uk'', ''germany'', ''france'', ''canada'', ''australia''}
     then 100
     else if lower country \<in> {''spain'', ''italy'', ''brazil'', ''india''} then 80
     else 60)"

text \<open>The string a cell holds once it has been filled with a default.\<close>

fun text_of :: "cell \<Rightarrow> string \<Rightarrow> string" where
  "text_of NaN v = v"
| "text_of (Str s) v = s"

text \<open>The row that the program writes for one row of its input.\<close>

definition output_row :: "'a contact \<Rightarrow> 'a contact" where
  "output_row r = (fillna_defaults r)\<lparr>Other := without_columns score_columns (Other r)\<rparr>"

text \<open>The scored row that the program builds from one row of its input.\<close>

definition filled_scores :: "'a contact \<Rightarrow> 'a scored" where
  "filled_scores r =
    (let a = roleScore (text_of (Role r) ''unknown'');
         b = companySizeScore (text_of (Company_Size r) ''1-10'');
         c = countryScore (text_of (Country r) ''unknown'')
     in contact.extend (output_row r)
          (scored.fields a b c (of_int a * 0.5 + of_int b * 0.3 + of_int c * 0.2)))"

text \<open>A row none of whose other columns bears the name of a score column.\<close>

definition no_score_columns :: "'a contact \<Rightarrow> bool" where
  "no_score_columns r \<longleftrightarrow> set (map fst (Other r)) \<inter> set score_columns = {}"

section \<open>The scoring functions on strings\<close>

lemma assign_role_score_Str: "assign_role_score (Str s) = Inr (roleScore s)"
  by (simp add: roleScore_def dict_get_def)

lemma assign_company_size_score_Str: "assign_company_size_score (Str s) = companySizeScore s"
  by (simp add: companySizeScore_def dict_get_def)

lemma assign_country_score_Str: "assign_country_score (Str s) = Inr (countryScore s)"
  by (simp add: countryScore_def dict_item_def COUNTRY_TIERS_def COUNTRY_SCORES_def Let_def)

lemma fillna_text_of: "fillna c v = Str (text_of c v)"
  by (cases c) simp_all

text \<open>
  C4. For every string, \<open>assign_role_score\<close> returns, without raising, the entry of the
  role table under the lowercased string, and 20 when there is none. The strings CEO
  and ceo score 100; unknown-role and the empty string score 20.
\<close>

theorem assign_role_score_lookup:
  "assign_role_score (Str role) = Inr (roleScore role) \<and>
   assign_role_score (Str ''CEO'') = Inr 100 \<and>
   assign_role_score (Str ''ceo'') = Inr 100 \<and>
   assign_role_score (Str ''unknown-role'') = Inr 20 \<and>
   assign_role_score (Str []) = Inr 20"
proof (intro conjI)
  show "assign_role_score (Str role) = Inr (roleScore role)"
    by (rule assign_role_score_Str)
  show "assign_role_score (Str ''CEO'') = Inr 100" by code_simp
  show "assign_role_score (Str ''ceo'') = Inr 100" by code_simp
  show "assign_role_score (Str ''unknown-role'') = Inr 20" by code_simp
  show "assign_role_score (Str []) = Inr 20" by code_simp
qed

text \<open>
  C5. For every string, \<open>assign_company_size_score\<close> returns the entry of the company
  size table under the string exactly as it is given, and 20 when there is none. The
  string 10000+ scores 100 and not-a-bucket scores 20.
\<close>

theorem assign_company_size_score_lookup:
  "assign_company_size_score (Str size') = companySizeScore size' \<and>
   assign_company_size_score (Str ''10000+'') = 100 \<and>
   assign_company_size_score (Str ''not-a-bucket'') = 20"
proof (intro conjI)
  show "assign_company_size_score (Str size') = companySizeScore size'"
    by (rule assign_company_size_score_Str)
  show "assign_company_size_score (Str ''10000+'') = 100" by code_simp
  show "assign_company_size_score (Str ''not-a-bucket'') = 20" by code_simp
qed

text \<open>
  C6. For every string, \<open>assign_country_score\<close> lowercases it and returns 100 when the
  result is in the first tier, else 80 when it is in the second tier, else 60. The
  strings USA and usa score 100, Spain scores 80 and Mongolia scores 60.
\<close>

theorem assign_country_score_tiers:
  "assign_country_score (Str country) = Inr (countryScore country) \<and>
   assign_country_score (Str ''USA'') = Inr 100 \<and>
   assign_country_score (Str ''usa'') = Inr 100 \<and>
   assign_country_score (Str ''Spain'') = Inr 80 \<and>
   assign_country_score (Str ''Mongolia'') = Inr 60"
proof (intro conjI)
  show "assign_country_score (Str country) = Inr (countryScore country)"
    by (rule assign_country_score_Str)
  show "assign_country_score (Str ''USA'') = Inr 100" by code_simp
  show "assign_country_score (Str ''usa'') = Inr 100" by code_simp
  show "assign_country_score (Str ''Spain'') = Inr 80" by code_simp
  show "assign_country_score (Str ''Mongolia'') = Inr 60" by code_simp
qed

section \<open>Filling the missing cells\<close>

text \<open>
  C7. Filling replaces a missing Role by unknown, a missing Company Size by 1-10 and a
  missing Country by unknown; a cell of these columns that holds a string keeps it, and
  the other columns of the row are unchanged.
\<close>

theorem fillna_defaults_fields:
  "Role (fillna_defaults r) = (case Role r of NaN \<Rightarrow> Str ''unknown'' | Str s \<Rightarrow> Str s) \<and>
   Company_Size (fillna_defaults r) =
     (case Company_Size r of NaN \<Rightarrow> Str ''1-10'' | Str s \<Rightarrow> Str s) \<and>
   Country (fillna_defaults r) = (case Country r of NaN \<Rightarrow> Str ''unknown'' | Str s \<Rightarrow> Str s) \<and>
   Other (fillna_defaults r) = Other r"
  by (simp add: fillna_defaults_def split: cell.split)

section \<open>The scored frame\<close>

lemma series_apply_all_Inr:
  "(\<And>x. x \<in> set xs \<Longrightarrow> f (h x) = Inr (g x)) \<Longrightarrow>
     series_apply f (map h xs) = Inr (map g xs)"
  by (induction xs) simp_all

lemma zip3_same:
  "map h (zip (map f1 xs) (zip (map f2 xs) (map f3 xs))) = map (\<lambda>x. h (f1 x, f2 x, f3 x)) xs"
  by (induction xs) simp_all

lemma add_score_columns_same:
  "add_score_columns (map f0 xs) (map f1 xs) (map f2 xs) (map f3 xs) (map f4 xs) =
     map (\<lambda>x. contact.extend ((f0 x)\<lparr>Other := without_columns score_columns (Other (f0 x))\<rparr>)
               (scored.fields (f1 x) (f2 x) (f3 x) (f4 x))) xs"
  by (induction xs) (simp_all add: add_score_columns_def)

lemma WEIGHTS_items:
  "dict_item WEIGHTS ''role'' = Inr 0.5"
  "dict_item WEIGHTS ''company_size'' = Inr 0.3"
  "dict_item WEIGHTS ''country'' = Inr 0.2"
  by (simp_all add: dict_item_def WEIGHTS_def)

lemma scored_frame_eq: "scored_frame df = Inr (map filled_scores df)"
proof -
  have role: "series_apply assign_role_score (map Role (map fillna_defaults df)) =
      Inr (map (\<lambda>r. roleScore (text_of (Role r) ''unknown'')) df)"
    unfolding map_map comp_def
    by (rule series_apply_all_Inr)
       (simp add: fillna_defaults_def fillna_text_of assign_role_score_Str
          del: assign_role_score.simps)
  have country: "series_apply assign_country_score (map Country (map fillna_defaults df)) =
      Inr (map (\<lambda>r. countryScore (text_of (Country r) ''unknown'')) df)"
    unfolding map_map comp_def
    by (rule series_apply_all_Inr)
       (simp add: fillna_defaults_def fillna_text_of assign_country_score_Str
          del: assign_country_score.simps)
  have size: "map assign_company_size_score (map Company_Size (map fillna_defaults df)) =
      map (\<lambda>r. companySizeScore (text_of (Company_Size r) ''1-10'')) df"
    by (simp add: fillna_defaults_def fillna_text_of assign_company_size_score_Str
          del: assign_company_size_score.simps)
  show ?thesis
    unfolding scored_frame_def Let_def role country size bind_err_def WEIGHTS_items
    by (simp add: zip3_same add_score_columns_same filled_scores_def output_row_def
          fillna_defaults_def Let_def)
qed

lemma truncate_filled_scores: "contact.truncate (filled_scores r) = output_row r"
  by (simp add: filled_scores_def output_row_def Let_def contact.defs scored.defs
        fillna_defaults_def)

lemma without_columns_none:
  "set (map fst cols) \<inter> set names = {} \<Longrightarrow> without_columns names cols = cols"
  by (induction cols) (auto simp: without_columns_def)

lemma no_score_columns_output_row: "no_score_columns (output_row r)"
  by (auto simp: no_score_columns_def output_row_def without_columns_def)

lemma output_row_no_score_columns: "no_score_columns r \<Longrightarrow> output_row r = fillna_defaults r"
  by (simp add: no_score_columns_def output_row_def without_columns_none fillna_defaults_def)

lemma process_contacts_eq:
  "process_contacts sv df =
     Inr (map contact.truncate (sv final_score False (map filled_scores df)))"
  by (simp add: process_contacts_def scored_frame_eq bind_err_def)

lemma sort_values_stable_spec: "sort_values_spec sort_values_stable"
  by (simp add: sort_values_spec_def sort_values_stable_def rev_map)

lemma filled_scores_columns:
  "Role (filled_scores r) = Str (text_of (Role r) ''unknown'')"
  "Company_Size (filled_scores r) = Str (text_of (Company_Size r) ''1-10'')"
  "Country (filled_scores r) = Str (text_of (Country r) ''unknown'')"
  "role_score (filled_scores r) = roleScore (text_of (Role r) ''unknown'')"
  "company_size_score (filled_scores r) = companySizeScore (text_of (Company_Size r) ''1-10'')"
  "country_score (filled_scores r) = countryScore (text_of (Country r) ''unknown'')"
  "final_score (filled_scores r) =
     of_int (role_score (filled_scores r)) * 0.5 +
     of_int (company_size_score (filled_scores r)) * 0.3 +
     of_int (country_score (filled_scores r)) * 0.2"
  by (simp_all add: filled_scores_def output_row_def Let_def contact.defs scored.defs
        fillna_defaults_def fillna_text_of)

lemma roleScore_bounds: "10 \<le> roleScore s \<and> roleScore s \<le> 100"
  by (simp add: roleScore_def ROLE_SCORES_def)

lemma companySizeScore_bounds: "20 \<le> companySizeScore s \<and> companySizeScore s \<le> 100"
  by (simp add: companySizeScore_def COMPANY_SIZE_SCORES_def)

lemma countryScore_bounds: "60 \<le> countryScore s \<and> countryScore s \<le> 100"
  by (simp add: countryScore_def)

lemma sorted_rev_map_iff:
  "sorted (rev (map f xs)) \<longleftrightarrow> sorted_wrt (\<lambda>a b. f b \<le> f a) xs"
  by (simp add: sorted_wrt_rev sorted_wrt_map flip: rev_map)

lemma fillna_defaults_no_NaN:
  "Role r \<noteq> NaN \<Longrightarrow> Company_Size r \<noteq> NaN \<Longrightarrow> Country r \<noteq> NaN \<Longrightarrow> fillna_defaults r = r"
  by (cases "Role r"; cases "Company_Size r"; cases "Country r")
     (simp_all add: fillna_defaults_def)

section \<open>The ranking\<close>

text \<open>
  C1. With a \<open>sort_values\<close> that keeps the promise of the library, the program never
  raises, and its output is the scored frame in some order, without the score columns,
  such that no row comes after a row with a strictly smaller \<open>final_score\<close>: along
  the output the final scores never increase.
\<close>

theorem ranking_sorted_descending:
  assumes "sort_values_spec sv"
  shows "\<exists>sdf ranked.
           scored_frame df = Inr sdf \<and> mset ranked = mset sdf \<and>
           sorted_wrt (\<lambda>a b. final_score b \<le> final_score a) ranked \<and>
           process_contacts sv df = Inr (map contact.truncate ranked)"
proof (intro exI conjI)
  show "scored_frame df = Inr (map filled_scores df)"
    by (rule scored_frame_eq)
  show "mset (sv final_score False (map filled_scores df)) = mset (map filled_scores df)"
    using assms by (simp add: sort_values_spec_def)
  have "sorted (rev (map final_score (sv final_score False (map filled_scores df))))"
    using assms by (simp add: sort_values_spec_def)
  then show "sorted_wrt (\<lambda>a b. final_score b \<le> final_score a)
      (sv final_score False (map filled_scores df))"
    by (simp only: sorted_rev_map_iff)
  show "process_contacts sv df =
      Inr (map contact.truncate (sv final_score False (map filled_scores df)))"
    by (rule process_contacts_eq)
qed

theorem ranking_sorted_descending_witness:
  "sort_values_spec (sort_values_stable :: cell scored sort_values) \<and>
   (\<exists>sdf ranked.
      scored_frame
        [\<lparr>Role = Str ''intern'', Company_Size = Str ''1-10'', Country = NaN, Other = [(''Name'', Str ''Cy'')]\<rparr>,
         \<lparr>Role = Str ''CEO'', Company_Size = Str ''10000+'', Country = Str ''USA'',
            Other = [(''Name'', Str ''Di'')]\<rparr>] = Inr sdf \<and>
      mset ranked = mset sdf \<and>
      sorted_wrt (\<lambda>a b. final_score b \<le> final_score a) ranked \<and>
      process_contacts sort_values_stable
        [\<lparr>Role = Str ''intern'', Company_Size = Str ''1-10'', Country = NaN, Other = [(''Name'', Str ''Cy'')]\<rparr>,
         \<lparr>Role = Str ''CEO'', Company_Size = Str ''10000+'', Country = Str ''USA'',
            Other = [(''Name'', Str ''Di'')]\<rparr>] = Inr (map contact.truncate ranked)) \<and>
   process_contacts sort_values_stable
     [\<lparr>Role = Str ''intern'', Company_Size = Str ''1-10'', Country = NaN, Other = [(''Name'', Str ''Cy'')]\<rparr>,
      \<lparr>Role = Str ''CEO'', Company_Size = Str ''10000+'', Country = Str ''USA'',
         Other = [(''Name'', Str ''Di'')]\<rparr>] =
   Inr [\<lparr>Role = Str ''CEO'', Company_Size = Str ''10000+'', Country = Str ''USA'',
          Other = [(''Name'', Str ''Di'')]\<rparr>,
        \<lparr>Role = Str ''intern'', Company_Size = Str ''1-10'', Country = Str ''unknown'',
          Other = [(''Name'', Str ''Cy'')]\<rparr>]"
proof (intro conjI)
  show "sort_values_spec (sort_values_stable :: cell scored sort_values)"
    by (rule sort_values_stable_spec)
  show "\<exists>sdf ranked.
      scored_frame
        [\<lparr>Role = Str ''intern'', Company_Size = Str ''1-10'', Country = NaN, Other = [(''Name'', Str ''Cy'')]\<rparr>,
         \<lparr>Role = Str ''CEO'', Company_Size = Str ''10000+'', Country = Str ''USA'',
            Other = [(''Name'', Str ''Di'')]\<rparr>] = Inr sdf \<and>
      mset ranked = mset sdf \<and>
      sorted_wrt (\<lambda>a b. final_score b \<le> final_score a) ranked \<and>
      process_contacts sort_values_stable
        [\<lparr>Role = Str ''intern'', Company_Size = Str ''1-10'', Country = NaN, Other = [(''Name'', Str ''Cy'')]\<rparr>,
         \<lparr>Role = Str ''CEO'', Company_Size = Str ''10000+'', Country = Str ''USA'',
            Other = [(''Name'', Str ''Di'')]\<rparr>] = Inr (map contact.truncate ranked)"
    by (rule ranking_sorted_descending [OF sort_values_stable_spec])
  show "process_contacts sort_values_stable
     [\<lparr>Role = Str ''intern'', Company_Size = Str ''1-10'', Country = NaN, Other = [(''Name'', Str ''Cy'')]\<rparr>,
      \<lparr>Role = Str ''CEO'', Company_Size = Str ''10000+'', Country = Str ''USA'',
         Other = [(''Name'', Str ''Di'')]\<rparr>] =
   Inr [\<lparr>Role = Str ''CEO'', Company_Size = Str ''10000+'', Country = Str ''USA'',
          Other = [(''Name'', Str ''Di'')]\<rparr>,
        \<lparr>Role = Str ''intern'', Company_Size = Str ''1-10'', Country = Str ''unknown'',
          Other = [(''Name'', Str ''Cy'')]\<rparr>]"
    by code_simp
qed



lemma scored_frame_rows_bounded:
  "\<exists>sdf. scored_frame df = Inr sdf \<and> length sdf = length df \<and>
     (\<forall>s\<in>set sdf.
        10 \<le> role_score s \<and> role_score s \<le> 100 \<and>
        20 \<le> company_size_score s \<and> company_size_score s \<le> 100 \<and>
        60 \<le> country_score s \<and> country_score s \<le> 100 \<and>
        23 \<le> final_score s \<and> final_score s \<le> 100)"
proof (intro exI conjI ballI)
  show "scored_frame df = Inr (map filled_scores df)"
    by (rule scored_frame_eq)
  show "length (map filled_scores df) = length df" by simp
next
  fix s assume "s \<in> set (map filled_scores df)"
  then obtain r where s: "s = filled_scores r" by auto
  have a: "10 \<le> role_score s \<and> role_score s \<le> 100"
    unfolding s filled_scores_columns by (rule roleScore_bounds)
  have b: "20 \<le> company_size_score s \<and> company_size_score s \<le> 100"
    unfolding s filled_scores_columns by (rule companySizeScore_bounds)
  have c: "60 \<le> country_score s \<and> country_score s \<le> 100"
    unfolding s filled_scores_columns by (rule countryScore_bounds)
  have f: "final_score s =
      of_int (role_score s) * 0.5 + of_int (company_size_score s) * 0.3 +
      of_int (country_score s) * 0.2"
    unfolding s by (rule filled_scores_columns(7))
  show "10 \<le> role_score s" "role_score s \<le> 100" using a by simp_all
  show "20 \<le> company_size_score s" "company_size_score s \<le> 100" using b by simp_all
  show "60 \<le> country_score s" "country_score s \<le> 100" using c by simp_all
  have ra: "(10::rat) \<le> of_int (role_score s)" and rA: "of_int (role_score s) \<le> (100::rat)"
    using a by simp_all
  have rb: "(20::rat) \<le> of_int (company_size_score s)"
    and rB: "of_int (company_size_score s) \<le> (100::rat)"
    using b by simp_all
  have rc: "(60::rat) \<le> of_int (country_score s)"
    and rC: "of_int (country_score s) \<le> (100::rat)"
    using c by simp_all
  show "23 \<le> final_score s" unfolding f using ra rb rc by simp
  show "final_score s \<le> 100" unfolding f using rA rB rC by simp
qed

text \<open>
  C10. In every row of the scored frame the role score lies between 10 and 100, the
  company size score between 20 and 100, the country score between 60 and 100, and the
  final score between 23 and 100. The component minima are reached by the role intern,
  the size 1-10 and the country unknown, and 0.5 * 10 + 0.3 * 20 + 0.2 * 60 = 23.
\<close>

theorem final_score_bounds:
  "(\<exists>sdf. scored_frame df = Inr sdf \<and> length sdf = length df \<and>
      (\<forall>s\<in>set sdf.
         10 \<le> role_score s \<and> role_score s \<le> 100 \<and>
         20 \<le> company_size_score s \<and> company_size_score s \<le> 100 \<and>
         60 \<le> country_score s \<and> country_score s \<le> 100 \<and>
         23 \<le> final_score s \<and> final_score s \<le> 100)) \<and>
   assign_role_score (Str ''intern'') = Inr 10 \<and>
   assign_company_size_score (Str ''1-10'') = 20 \<and>
   assign_country_score (Str ''unknown'') = Inr 60 \<and>
   (0.5 * 10 + 0.3 * 20 + 0.2 * 60 = (23::rat))"
proof (intro conjI)
  show "\<exists>sdf. scored_frame df = Inr sdf \<and> length sdf = length df \<and>
      (\<forall>s\<in>set sdf.
         10 \<le> role_score s \<and> role_score s \<le> 100 \<and>
         20 \<le> company_size_score s \<and> company_size_score s \<le> 100 \<and>
         60 \<le> country_score s \<and> country_score s \<le> 100 \<and>
         23 \<le> final_score s \<and> final_score s \<le> 100)"
    by (rule scored_frame_rows_bounded)
  show "assign_role_score (Str ''intern'') = Inr 10" by code_simp
  show "assign_company_size_score (Str ''1-10'') = 20" by code_simp
  show "assign_country_score (Str ''unknown'') = Inr 60" by code_simp
  show "0.5 * 10 + 0.3 * 20 + 0.2 * 60 = (23::rat)" by simp
qed

theorem final_score_bounds_witness:
  "scored_frame
     [\<lparr>Role = Str ''Intern'', Company_Size = NaN, Country = NaN, Other = [(''Name'', Str ''Cy'')]\<rparr>] =
   Inr [\<lparr>Role = Str ''Intern'', Company_Size = Str ''1-10'', Country = Str ''unknown'',
          Other = [(''Name'', Str ''Cy'')], role_score = 10, company_size_score = 20, country_score = 60,
          final_score = 23\<rparr>] \<and>
   (23::rat) \<le> 23 \<and> (23::rat) \<le> 100"
proof -
  let ?row = "\<lparr>Role = Str ''Intern'', Company_Size = NaN, Country = NaN, Other = [(''Name'', Str ''Cy'')]\<rparr>"
  let ?scored = "\<lparr>Role = Str ''Intern'', Company_Size = Str ''1-10'',
    Country = Str ''unknown'', Other = [(''Name'', Str ''Cy'')], role_score = 10, company_size_score = 20,
    country_score = 60, final_score = 23\<rparr>"
  have e: "scored_frame [?row] = Inr [?scored]" by code_simp
  from final_score_bounds [of "[?row]"] obtain sdf where
    f: "scored_frame [?row] = Inr sdf" and
    b: "\<forall>s\<in>set sdf. 23 \<le> final_score s \<and> final_score s \<le> 100"
    by blast
  from e f have "sdf = [?scored]" by simp
  with b have "23 \<le> final_score ?scored \<and> final_score ?scored \<le> 100" by simp
  then show ?thesis using e by simp
qed

section \<open>The rows of the output\<close>

text \<open>
  A frame of one row whose Role is missing comes back with the Role unknown: the output
  is not the input in another order.
\<close>

theorem output_rows_counterexample:
  "process_contacts sort_values_stable
     [\<lparr>Role = NaN, Company_Size = Str ''11-50'', Country = Str ''Spain'', Other = [(''Name'', Str ''Ann'')]\<rparr>] =
   Inr [\<lparr>Role = Str ''unknown'', Company_Size = Str ''11-50'', Country = Str ''Spain'',
          Other = [(''Name'', Str ''Ann'')]\<rparr>] \<and>
   set [\<lparr>Role = Str ''unknown'', Company_Size = Str ''11-50'', Country = Str ''Spain'',
          Other = [(''Name'', Str ''Ann'')]\<rparr>] \<noteq>
   set [\<lparr>Role = NaN, Company_Size = Str ''11-50'', Country = Str ''Spain'', Other = [(''Name'', Str ''Ann'')]\<rparr>]"
  by code_simp

text \<open>
  C8, as the program has it. The output has one row for each input row and no column
  named like a score column. For a frame none of whose columns is named like a score column, the output
  as a multiset of rows is the input after the missing cells of Role, Company Size and
  Country have been filled with their defaults; when moreover no row has a missing cell
  in these three columns, the output is the input in another order.
\<close>

theorem output_is_filled_input:
  assumes "sort_values_spec sv"
  shows "\<exists>out. process_contacts sv df = Inr out \<and> length out = length df \<and>
           (\<forall>r\<in>set out. no_score_columns r) \<and>
           ((\<forall>r\<in>set df. no_score_columns r) \<longrightarrow>
              mset out = mset (map fillna_defaults df) \<and>
              ((\<forall>r\<in>set df. Role r \<noteq> NaN \<and> Company_Size r \<noteq> NaN \<and> Country r \<noteq> NaN) \<longrightarrow>
                 mset out = mset df))"
proof -
  let ?ranked = "sv final_score False (map filled_scores df)"
  let ?out = "map contact.truncate ?ranked"
  have m: "mset ?ranked = mset (map filled_scores df)"
    using assms by (simp add: sort_values_spec_def)
  have "mset ?out = image_mset contact.truncate (mset ?ranked)" by simp
  also have "\<dots> = image_mset contact.truncate (mset (map filled_scores df))"
    by (simp only: m)
  also have "\<dots> = mset (map output_row df)"
    by (simp add: multiset.map_comp comp_def truncate_filled_scores)
  finally have out: "mset ?out = mset (map output_row df)" .
  have len: "length ?out = length df"
    using arg_cong [OF out, of size] by simp
  have "set ?out = set (map output_row df)"
    using arg_cong [OF out, of set_mset] by simp
  then have clean: "\<forall>r\<in>set ?out. no_score_columns r"
    by (auto simp: no_score_columns_output_row)
  have filled: "mset ?out = mset (map fillna_defaults df)"
    if "\<forall>r\<in>set df. no_score_columns r"
  proof -
    have "map output_row df = map fillna_defaults df"
      using that by (intro map_cong refl) (simp add: output_row_no_score_columns)
    with out show ?thesis by simp
  qed
  have same: "mset ?out = mset df"
    if "\<forall>r\<in>set df. no_score_columns r"
      and "\<forall>r\<in>set df. Role r \<noteq> NaN \<and> Company_Size r \<noteq> NaN \<and> Country r \<noteq> NaN"
  proof -
    have "map fillna_defaults df = df"
      using that(2) by (intro map_idI) (simp add: fillna_defaults_no_NaN)
    with filled [OF that(1)] show ?thesis by simp
  qed
  show ?thesis
    using process_contacts_eq [of sv df] len clean filled same by blast
qed

theorem output_is_filled_input_witness:
  "sort_values_spec (sort_values_stable :: cell scored sort_values) \<and>
   no_score_columns \<lparr>Role = Str ''cto'', Company_Size = Str ''51-200'',
     Country = Str ''India'', Other = [(''Name'', Str ''Ed'')]\<rparr> \<and>
   no_score_columns \<lparr>Role = Str ''CEO'', Company_Size = Str ''10000+'',
     Country = Str ''USA'', Other = [(''Name'', Str ''Di'')]\<rparr> \<and>
   (\<exists>out.
      process_contacts sort_values_stable
        [\<lparr>Role = Str ''cto'', Company_Size = Str ''51-200'', Country = Str ''India'',
            Other = [(''Name'', Str ''Ed'')]\<rparr>,
         \<lparr>Role = Str ''CEO'', Company_Size = Str ''10000+'', Country = Str ''USA'',
            Other = [(''Name'', Str ''Di'')]\<rparr>] = Inr out \<and>
      mset out =
        mset [\<lparr>Role = Str ''cto'', Company_Size = Str ''51-200'', Country = Str ''India'',
                 Other = [(''Name'', Str ''Ed'')]\<rparr>,
              \<lparr>Role = Str ''CEO'', Company_Size = Str ''10000+'', Country = Str ''USA'',
                 Other = [(''Name'', Str ''Di'')]\<rparr>] \<and>
      length out = 2)"
proof -
  let ?df = "[\<lparr>Role = Str ''cto'', Company_Size = Str ''51-200'', Country = Str ''India'',
      Other = [(''Name'', Str ''Ed'')]\<rparr>,
    \<lparr>Role = Str ''CEO'', Company_Size = Str ''10000+'', Country = Str ''USA'',
      Other = [(''Name'', Str ''Di'')]\<rparr>]"
  have c: "\<forall>r\<in>set ?df. no_score_columns r"
    by (simp add: no_score_columns_def score_columns_def)
  have n: "\<forall>r\<in>set ?df. Role r \<noteq> NaN \<and> Company_Size r \<noteq> NaN \<and> Country r \<noteq> NaN"
    by simp
  from output_is_filled_input [OF sort_values_stable_spec, of ?df] obtain out where
    p: "process_contacts sort_values_stable ?df = Inr out" and l: "length out = length ?df" and
    i: "(\<forall>r\<in>set ?df. no_score_columns r) \<longrightarrow>
       mset out = mset (map fillna_defaults ?df) \<and>
       ((\<forall>r\<in>set ?df. Role r \<noteq> NaN \<and> Company_Size r \<noteq> NaN \<and> Country r \<noteq> NaN) \<longrightarrow>
          mset out = mset ?df)"
    by blast
  from i c n have "mset out = mset ?df" by blast
  with p l have "process_contacts sort_values_stable ?df = Inr out \<and> mset out = mset ?df \<and>
      length out = 2"
    by simp
  then show ?thesis using sort_values_stable_spec c by auto
qed

text \<open>
  What the model does with a column of the input that is named like a score column: a
  frame with the columns Name and \<open>final_score\<close> comes back with the column Name only.
\<close>

lemma input_score_column_is_dropped:
  "process_contacts sort_values_stable
     [\<lparr>Role = Str ''CEO'', Company_Size = Str ''10000+'', Country = Str ''USA'',
        Other = [(''Name'', Str ''Di''), (''final_score'', Str ''7'')]\<rparr>] =
   Inr [\<lparr>Role = Str ''CEO'', Company_Size = Str ''10000+'', Country = Str ''USA'',
          Other = [(''Name'', Str ''Di'')]\<rparr>]"
  by code_simp

section \<open>No failure, the empty frame and the frame of one row\<close>

text \<open>
  A frame of one row whose Company Size and Country are missing does not come back as
  it went in.
\<close>

theorem single_row_counterexample:
  "process_contacts sort_values_stable
     [\<lparr>Role = Str ''Engineer'', Company_Size = NaN, Country = NaN, Other = [(''Name'', Str ''Bo'')]\<rparr>] =
   Inr [\<lparr>Role = Str ''Engineer'', Company_Size = Str ''1-10'', Country = Str ''unknown'',
          Other = [(''Name'', Str ''Bo'')]\<rparr>] \<and>
   process_contacts sort_values_stable
     [\<lparr>Role = Str ''Engineer'', Company_Size = NaN, Country = NaN, Other = [(''Name'', Str ''Bo'')]\<rparr>] \<noteq>
   Inr [\<lparr>Role = Str ''Engineer'', Company_Size = NaN, Country = NaN, Other = [(''Name'', Str ''Bo'')]\<rparr>]"
  by code_simp

text \<open>
  C9, as the program has it. The program raises on no frame. On the empty frame it
  returns the empty frame. On a frame of one row, none of whose columns is named like a
  score column, it returns that row with its missing cells filled, which is the row
  itself when none of its Role, Company Size and Country is missing.
\<close>

theorem process_contacts_total:
  assumes "sort_values_spec sv"
  shows "(\<exists>out. process_contacts sv df = Inr out) \<and>
         process_contacts sv [] = Inr [] \<and>
         (no_score_columns r \<longrightarrow>
            process_contacts sv [r] = Inr [fillna_defaults r] \<and>
            (Role r \<noteq> NaN \<and> Company_Size r \<noteq> NaN \<and> Country r \<noteq> NaN \<longrightarrow>
               process_contacts sv [r] = Inr [r]))"
proof -
  have m: "mset (sv final_score False xs) = mset xs" for xs
    using assms by (simp add: sort_values_spec_def)
  have e: "sv final_score False [] = []"
    using m [of "[]"] by simp
  have o: "sv final_score False [x] = [x]" for x
    using m [of "[x]"] by simp
  have one: "process_contacts sv [r] = Inr [output_row r]"
    by (simp add: process_contacts_eq o truncate_filled_scores)
  show ?thesis
    using one
    by (simp add: process_contacts_eq e output_row_no_score_columns fillna_defaults_no_NaN)
qed

theorem process_contacts_total_witness:
  "sort_values_spec (sort_values_stable :: cell scored sort_values) \<and>
   process_contacts sort_values_stable ([] :: cell contact list) = Inr [] \<and>
   no_score_columns \<lparr>Role = Str ''Manager'', Company_Size = Str ''201-500'',
     Country = Str ''Italy'', Other = [(''Name'', Str ''Flo'')]\<rparr> \<and>
   Role \<lparr>Role = Str ''Manager'', Company_Size = Str ''201-500'', Country = Str ''Italy'',
     Other = [(''Name'', Str ''Flo'')]\<rparr> \<noteq> NaN \<and>
   process_contacts sort_values_stable
     [\<lparr>Role = Str ''Manager'', Company_Size = Str ''201-500'', Country = Str ''Italy'',
        Other = [(''Name'', Str ''Flo'')]\<rparr>] =
   Inr [\<lparr>Role = Str ''Manager'', Company_Size = Str ''201-500'', Country = Str ''Italy'',
          Other = [(''Name'', Str ''Flo'')]\<rparr>]"
proof -
  let ?r = "\<lparr>Role = Str ''Manager'', Company_Size = Str ''201-500'', Country = Str ''Italy'',
    Other = [(''Name'', Str ''Flo'')]\<rparr>"
  have c: "no_score_columns ?r"
    by (simp add: no_score_columns_def score_columns_def)
  have n: "Role ?r \<noteq> NaN \<and> Company_Size ?r \<noteq> NaN \<and> Country ?r \<noteq> NaN"
    by simp
  from process_contacts_total [OF sort_values_stable_spec, of "[]" ?r] c n
  have "process_contacts sort_values_stable ([] :: cell contact list) = Inr [] \<and>
      process_contacts sort_values_stable [?r] = Inr [?r]"
    by blast
  then show ?thesis using sort_values_stable_spec c by simp
qed

end
